theory Spec2Isabelle
  imports Complex_Main
begin

section \<open>Python values used by the dashboard\<close>

text \<open>
  The dashboard is one Python script, \<^verbatim>\<open>divvy_demand_map_public.py\<close>. Its numbers are
  Python integers (unbounded, modelled as \<open>int\<close>) and binary64 floats. A float is
  modelled by its special values and, when finite, by the rational number it stands for:
  the rounding of binary64 arithmetic is abstracted to exact rational arithmetic, while
  infinities and NaN are kept, because they decide whether \<^verbatim>\<open>int(...)\<close> raises.
\<close>

datatype pyfloat = FNum rat | FPosInf | FNegInf | FNaN

datatype py_number = PyInt int | PyFloat pyfloat

text \<open>Exceptions are values. The last three do not derive from \<^verbatim>\<open>Exception\<close>.\<close>

datatype py_error =
    ConnectionError | JSONDecodeError | KeyError | TypeError | DatabaseError
  | ValueError | OverflowError
  | KeyboardInterrupt | SystemExit | StopException

fun is_Exception :: "py_error \<Rightarrow> bool" where
  "is_Exception KeyboardInterrupt = False"
| "is_Exception SystemExit = False"
| "is_Exception StopException = False"
| "is_Exception _ = True"

text \<open>\<^verbatim>\<open>a <= c\<close> and \<^verbatim>\<open>c < b\<close> for an integer \<open>c\<close> against an int or float bound.\<close>

fun num_le_int :: "py_number \<Rightarrow> int \<Rightarrow> bool" where
  "num_le_int (PyInt a) c = (a \<le> c)"
| "num_le_int (PyFloat (FNum q)) c = (q \<le> of_int c)"
| "num_le_int (PyFloat FNegInf) c = True"
| "num_le_int (PyFloat FPosInf) c = False"
| "num_le_int (PyFloat FNaN) c = False"

fun int_lt_num :: "int \<Rightarrow> py_number \<Rightarrow> bool" where
  "int_lt_num c (PyInt b) = (c < b)"
| "int_lt_num c (PyFloat (FNum q)) = (of_int c < q)"
| "int_lt_num c (PyFloat FPosInf) = True"
| "int_lt_num c (PyFloat FNegInf) = False"
| "int_lt_num c (PyFloat FNaN) = False"

section \<open>Marker radius\<close>

text \<open>
  \<^verbatim>\<open>get_station_radius\<close>: the table \<^verbatim>\<open>size_groups\<close>, scanned in order by the
  \<^verbatim>\<open>for\<close> loop; the first group with \<^verbatim>\<open>min_cap <= capacity < max_cap\<close> returns its
  radius, and the statement after the loop returns 3.
\<close>

definition size_groups :: "(py_number \<times> py_number \<times> int) list" where
  "size_groups =
    [(PyInt 0, PyInt 10, 3),
     (PyInt 10, PyInt 20, 8),
     (PyInt 20, PyInt 30, 15),
     (PyInt 30, PyInt 50, 20),
     (PyInt 50, PyInt 75, 30),
     (PyInt 75, PyInt 100, 40),
     (PyInt 100, PyFloat FPosInf, 50)]"

fun find_size_group :: "(py_number \<times> py_number \<times> int) list \<Rightarrow> int \<Rightarrow> int" where
  "find_size_group [] capacity = 3"
| "find_size_group ((min_cap, max_cap, radius) # groups) capacity =
     (if num_le_int min_cap capacity \<and> int_lt_num capacity max_cap then radius
      else find_size_group groups capacity)"

definition get_station_radius :: "int \<Rightarrow> int" where
  "get_station_radius capacity = find_size_group size_groups capacity"

section \<open>Station tables\<close>

text \<open>
  A table is the list of its rows, in order; \<^verbatim>\<open>df.empty\<close> is \<open>df = []\<close>. The columns are
  the ones the script reads. \<open>station_information\<close> and \<open>station_status\<close> are the rows
  of the two GBFS resources (the status fields carry a prefix, since the merged row has
  the same names), \<open>merged_station\<close> is a row of \<^verbatim>\<open>pd.merge(info, status, on='station_id')\<close>
  and \<open>station\<close> a row with the four demand metrics and \<^verbatim>\<open>last_reported\<close>: a row of the
  live table after the metrics are calculated, and a row of the warehouse query, which
  selects the same twelve columns.
\<close>

type_synonym timestamp = int

record station_information =
  station_id :: string
  name :: string
  lat :: pyfloat
  lon :: pyfloat
  capacity :: int

record station_status =
  status_station_id :: string
  status_num_bikes_available :: int
  status_num_docks_available :: int

record merged_station = station_information +
  num_bikes_available :: int
  num_docks_available :: int

record station = merged_station +
  bike_utilization :: pyfloat
  dock_utilization :: pyfloat
  out_of_service_bikes :: int
  out_of_service_ratio :: pyfloat
  last_reported :: timestamp

record marker = station +
  color :: "int list"
  radius :: int

text \<open>
  The inner join keeps the order of the left table; a key that occurs more than once
  gives every pair.
\<close>

definition merge_row :: "station_information \<Rightarrow> station_status \<Rightarrow> merged_station" where
  "merge_row i s =
     \<lparr>station_id = station_id i, name = name i, lat = lat i, lon = lon i,
      capacity = capacity i,
      num_bikes_available = status_num_bikes_available s,
      num_docks_available = status_num_docks_available s\<rparr>"

definition pd_merge :: "station_information list \<Rightarrow> station_status list \<Rightarrow> merged_station list" where
  "pd_merge info status =
     concat (map (\<lambda>i. map (merge_row i)
                          (filter (\<lambda>s. status_station_id s = station_id i) status)) info)"

text \<open>A merged row with the given capacity, bikes available and docks available.\<close>

definition example_row :: "int \<Rightarrow> int \<Rightarrow> int \<Rightarrow> merged_station" where
  "example_row c b d =
     \<lparr>station_id = ''a3a36d9e'', name = ''Clark St & Lake St'',
      lat = FNum (418857 / 10000), lon = FNum (- 876308 / 10000),
      capacity = c, num_bikes_available = b, num_docks_available = d\<rparr>"

section \<open>Demand metrics\<close>

text \<open>
  The \<^verbatim>\<open>/\<close> of two integer columns gives a float column and never raises: a zero divisor
  gives an infinity with the sign of the dividend, and NaN for 0/0.
\<close>

definition int_truediv :: "int \<Rightarrow> int \<Rightarrow> pyfloat" where
  "int_truediv a b =
     (if b \<noteq> 0 then FNum (rat_of_int a / rat_of_int b)
      else if 0 < a then FPosInf
      else if a < 0 then FNegInf
      else FNaN)"

text \<open>
  The four assignments under \<^verbatim>\<open># Calculate demand metrics\<close> and the stamp of
  \<^verbatim>\<open>last_reported\<close>, on one row. They read \<^verbatim>\<open>capacity\<close>,
  \<^verbatim>\<open>num_bikes_available\<close> and \<^verbatim>\<open>num_docks_available\<close> only, and a column
  assignment replaces a column that is already there, so the row may be a merged row or a
  row that has the metrics already.
\<close>

definition calculate_demand_metrics :: "timestamp \<Rightarrow> 'a merged_station_scheme \<Rightarrow> station" where
  "calculate_demand_metrics now r =
     \<lparr>station_id = station_id r, name = name r, lat = lat r, lon = lon r,
      capacity = capacity r,
      num_bikes_available = num_bikes_available r,
      num_docks_available = num_docks_available r,
      bike_utilization = int_truediv (num_bikes_available r) (capacity r),
      dock_utilization = int_truediv (num_docks_available r) (capacity r),
      out_of_service_bikes = capacity r - (num_bikes_available r + num_docks_available r),
      out_of_service_ratio =
        int_truediv (capacity r - (num_bikes_available r + num_docks_available r)) (capacity r),
      last_reported = now\<rparr>"

definition derived_columns :: "'a station_scheme \<Rightarrow> pyfloat \<times> pyfloat \<times> int \<times> pyfloat" where
  "derived_columns r =
     (bike_utilization r, dock_utilization r, out_of_service_bikes r, out_of_service_ratio r)"

section \<open>Marker colour\<close>

text \<open>
  \<^verbatim>\<open>255 * x\<close> on a float, and \<^verbatim>\<open>int(x)\<close>: truncation towards zero, \<^verbatim>\<open>ValueError\<close> on
  NaN and \<^verbatim>\<open>OverflowError\<close> on an infinity.
\<close>

definition float_mul_int :: "int \<Rightarrow> pyfloat \<Rightarrow> pyfloat" where
  "float_mul_int k x =
     (case x of
        FNum q \<Rightarrow> FNum (rat_of_int k * q)
      | FPosInf \<Rightarrow> (if 0 < k then FPosInf else if k < 0 then FNegInf else FNaN)
      | FNegInf \<Rightarrow> (if 0 < k then FNegInf else if k < 0 then FPosInf else FNaN)
      | FNaN \<Rightarrow> FNaN)"

definition trunc_toward_zero :: "rat \<Rightarrow> int" where
  "trunc_toward_zero q = (if 0 \<le> q then \<lfloor>q\<rfloor> else \<lceil>q\<rceil>)"

definition py_int :: "pyfloat \<Rightarrow> py_error + int" where
  "py_int x =
     (case x of
        FNum q \<Rightarrow> Inr (trunc_toward_zero q)
      | FPosInf \<Rightarrow> Inl OverflowError
      | FNegInf \<Rightarrow> Inl OverflowError
      | FNaN \<Rightarrow> Inl ValueError)"

definition get_station_color :: "'a station_scheme \<Rightarrow> py_error + int list" where
  "get_station_color row =
     (let total_bikes = num_bikes_available row + out_of_service_bikes row in
      if total_bikes = 0 then Inr [200, 200, 200, 200]
      else
        (case py_int (float_mul_int 255 (bike_utilization row)) of
           Inl e \<Rightarrow> Inl e
         | Inr base_intensity \<Rightarrow>
             (case py_int (float_mul_int 255 (out_of_service_ratio row)) of
                Inl e \<Rightarrow> Inl e
              | Inr red_intensity \<Rightarrow>
                  Inr [min 255 (base_intensity + red_intensity),
                       base_intensity, base_intensity, 200])))"


section \<open>Filter, encoding and summary counts\<close>

text \<open>\<^verbatim>\<open>filtered_df = df[df['capacity'] >= min_capacity]\<close>.\<close>

definition filter_capacity :: "'a station_scheme list \<Rightarrow> int \<Rightarrow> 'a station_scheme list" where
  "filter_capacity df min_capacity = filter (\<lambda>r. min_capacity \<le> capacity r) df"

text \<open>
  \<^verbatim>\<open>filtered_df.apply(f, axis=1)\<close> calls \<open>f\<close> on the rows in order; the first call that
  raises ends it. On a table without rows there is no call and the model has no value;
  what pandas makes of the column assignment in that case is outside the model, and no
  property below depends on it.
\<close>

fun apply_rows :: "('a \<Rightarrow> py_error + 'b) \<Rightarrow> 'a list \<Rightarrow> py_error + 'b list" where
  "apply_rows f [] = Inr []"
| "apply_rows f (r # rs) =
     (case f r of
        Inl e \<Rightarrow> Inl e
      | Inr v \<Rightarrow> (case apply_rows f rs of Inl e \<Rightarrow> Inl e | Inr vs \<Rightarrow> Inr (v # vs)))"

text \<open>The row with its \<^verbatim>\<open>color\<close> and \<^verbatim>\<open>radius\<close> columns.\<close>

definition add_encoding :: "station \<Rightarrow> int list \<Rightarrow> marker" where
  "add_encoding r c = station.extend r \<lparr>color = c, radius = get_station_radius (capacity r)\<rparr>"

text \<open>The three tables whose lengths are the summary metrics.\<close>

definition empty_stations :: "'a station_scheme list \<Rightarrow> 'a station_scheme list" where
  "empty_stations filtered_df = filter (\<lambda>r. num_bikes_available r = 0) filtered_df"

definition full_stations :: "'a station_scheme list \<Rightarrow> 'a station_scheme list" where
  "full_stations filtered_df = filter (\<lambda>r. num_docks_available r = 0) filtered_df"

definition out_of_service :: "'a station_scheme list \<Rightarrow> 'a station_scheme list" where
  "out_of_service filtered_df = filter (\<lambda>r. 0 < out_of_service_bikes r) filtered_df"


section \<open>The outside world and what the script does to it\<close>

text \<open>
  The script reads the warehouse, the live feed and the clock. A \<open>world\<close> fixes what each
  of these calls gives: a value, or the exception it raises. \<open>snowflake_connect\<close> stands
  for \<^verbatim>\<open>snowflake.connector.connect\<close> with the secrets, \<open>read_sql\<close> for
  \<^verbatim>\<open>pd.read_sql(query, conn)\<close>, \<open>conn_close\<close> for \<^verbatim>\<open>conn.close()\<close>, and the two feed
  fields for \<^verbatim>\<open>requests.get(url).json()['data']['stations']\<close> at the two URLs, as rows
  with the fields the script reads.

  What the script does is recorded as a list of events, in order: the log records, the
  calls to the outside, and the elements it puts on the page. The cache of
  \<^verbatim>\<open>load_station_data\<close> is not modelled: every run is a run of its body.
\<close>

datatype connection = Connection

record world =
  snowflake_connect :: "py_error + connection"
  read_sql :: "py_error + station list"
  conn_close :: "py_error + unit"
  station_information_json :: "py_error + station_information list"
  station_status_json :: "py_error + station_status list"
  timestamp_now :: timestamp

datatype event =
    LogInfo string
  | LogWarning string
  | LogError string py_error
  | SnowflakeConnect
  | ReadSql
  | ConnClose
  | HttpGet string
  | StSetPageConfig
  | StTitle
  | StError string
  | StWarning string
  | StSlider
  | StShowing nat int
  | StPydeckChart "marker list"
  | StLegend
  | StMetric string nat
  | StLastUpdated timestamp
  | StCheckbox
  | StDataframe "(string \<times> int \<times> int \<times> int \<times> int \<times> pyfloat) list"

definition info_url :: string where
  "info_url = ''https://gbfs.divvybikes.com/gbfs/en/station_information.json''"

definition status_url :: string where
  "status_url = ''https://gbfs.divvybikes.com/gbfs/en/station_status.json''"


section \<open>The two adapters\<close>

definition get_snowflake_connection :: "world \<Rightarrow> (py_error + connection option) \<times> event list" where
  "get_snowflake_connection w =
     (case snowflake_connect w of
        Inr conn \<Rightarrow> (Inr (Some conn), [SnowflakeConnect])
      | Inl e \<Rightarrow>
          if is_Exception e
          then (Inr None, [SnowflakeConnect, LogError ''Error connecting to Snowflake: '' e])
          else (Inl e, [SnowflakeConnect]))"

text \<open>
  The \<^verbatim>\<open>except Exception\<close> clause of an adapter, entered with the exception and
  the events so far: an \<^verbatim>\<open>Exception\<close> is logged and the empty table returned, anything
  else goes on to the caller.
\<close>

definition except_Exception ::
    "string \<Rightarrow> py_error \<Rightarrow> event list \<Rightarrow> (py_error + station list) \<times> event list" where
  "except_Exception msg e tr =
     (if is_Exception e then (Inr [], tr @ [LogError msg e]) else (Inl e, tr))"

text \<open>
  \<^verbatim>\<open>load_from_api\<close>. A resource with no station gives a frame with no column, and the
  merge on \<^verbatim>\<open>station_id\<close> raises \<^verbatim>\<open>KeyError\<close>.
\<close>

definition load_from_api :: "world \<Rightarrow> (py_error + station list) \<times> event list" where
  "load_from_api w =
     (case station_information_json w of
        Inl e \<Rightarrow> except_Exception ''Error loading data from API: '' e [HttpGet info_url]
      | Inr info \<Rightarrow>
          (case station_status_json w of
             Inl e \<Rightarrow>
               except_Exception ''Error loading data from API: '' e
                 [HttpGet info_url, HttpGet status_url]
           | Inr status \<Rightarrow>
               if info = [] \<or> status = []
               then except_Exception ''Error loading data from API: '' KeyError
                      [HttpGet info_url, HttpGet status_url]
               else (Inr (map (calculate_demand_metrics (timestamp_now w))
                              (pd_merge info status)),
                     [HttpGet info_url, HttpGet status_url,
                      LogInfo ''Successfully loaded data from GBFS API''])))"

definition load_from_snowflake :: "world \<Rightarrow> (py_error + station list) \<times> event list" where
  "load_from_snowflake w =
     (case get_snowflake_connection w of
        (Inl e, tr) \<Rightarrow> except_Exception ''Error loading data from Snowflake: '' e tr
      | (Inr None, tr) \<Rightarrow> (Inr [], tr)
      | (Inr (Some conn), tr) \<Rightarrow>
          (case read_sql w of
             Inl e \<Rightarrow> except_Exception ''Error loading data from Snowflake: '' e (tr @ [ReadSql])
           | Inr df \<Rightarrow>
               (case conn_close w of
                  Inl e \<Rightarrow>
                    except_Exception ''Error loading data from Snowflake: '' e
                      (tr @ [ReadSql, ConnClose])
                | Inr u \<Rightarrow>
                    (Inr df,
                     tr @ [ReadSql, ConnClose,
                           LogInfo ''Successfully loaded data from Snowflake gold table'']))))"

section \<open>The fallback\<close>

text \<open>
  The two elements \<^verbatim>\<open>load_station_data\<close> can put on the page: the warning that backup
  data is in use (its text starts with a warning sign in the script, left out here) and
  the error that both sources failed.
\<close>

definition backup_warning :: event where
  "backup_warning = StWarning ''Using backup data from GBFS API (Snowflake data unavailable)''"

definition exhausted_error :: event where
  "exhausted_error =
     StError ''Unable to load station data from both Snowflake and API. Please try again later.''"

definition fallback_log :: event where
  "fallback_log = LogWarning ''Snowflake load failed, falling back to API''"

text \<open>
  \<^verbatim>\<open>load_station_data\<close>. \<^verbatim>\<open>st.stop()\<close> ends the run of the script: it is the exception
  \<open>StopException\<close>, which nothing catches.
\<close>

definition load_station_data :: "world \<Rightarrow> (py_error + station list) \<times> event list" where
  "load_station_data w =
     (case load_from_snowflake w of
        (Inl e, tr) \<Rightarrow> (Inl e, tr)
      | (Inr df, tr) \<Rightarrow>
          if df = [] then
            (case load_from_api w of
               (Inl e, tr2) \<Rightarrow> (Inl e, tr @ [fallback_log] @ tr2)
             | (Inr df2, tr2) \<Rightarrow>
                 if df2 = [] then
                   (Inl StopException, tr @ [fallback_log] @ tr2 @ [exhausted_error])
                 else (Inr df2, tr @ [fallback_log] @ tr2 @ [backup_warning]))
          else (Inr df, tr))"

section \<open>The page\<close>

text \<open>
  \<^verbatim>\<open>df['last_reported'].max()\<close> of a table with a first row.
\<close>

definition last_updated :: "station \<Rightarrow> station list \<Rightarrow> timestamp" where
  "last_updated r rs = fold max (map last_reported rs) (last_reported r)"

definition raw_table :: "marker list \<Rightarrow> (string \<times> int \<times> int \<times> int \<times> int \<times> pyfloat) list" where
  "raw_table filtered_df =
     map (\<lambda>r. (name r, capacity r, num_bikes_available r, num_docks_available r,
                out_of_service_bikes r, bike_utilization r)) filtered_df"

text \<open>
  The script from the sidebar filter to its end, for a loaded table, the slider value and
  the state of the raw-data checkbox. The result is the exception that ended the run, if
  one did.
\<close>

definition present :: "station list \<Rightarrow> int \<Rightarrow> bool \<Rightarrow> py_error option \<times> event list" where
  "present df min_capacity show_raw =
     (let filtered_df = filter_capacity df min_capacity in
      case apply_rows get_station_color filtered_df of
        Inl e \<Rightarrow> (Some e, [StSlider, StShowing (length filtered_df) min_capacity])
      | Inr colors \<Rightarrow>
          (let markers = map2 add_encoding filtered_df colors in
           (None,
            [StSlider, StShowing (length filtered_df) min_capacity,
             StPydeckChart markers, StLegend,
             StMetric ''Empty Stations'' (length (empty_stations markers)),
             StMetric ''Full Stations'' (length (full_stations markers)),
             StMetric ''Stations with Out-of-Service Bikes'' (length (out_of_service markers))] @
            (case df of [] \<Rightarrow> [] | r # rs \<Rightarrow> [StLastUpdated (last_updated r rs)]) @
            [StCheckbox] @
            (if show_raw then [StDataframe (raw_table markers)] else []))))"

text \<open>The whole script, top to bottom.\<close>

definition dashboard :: "world \<Rightarrow> int \<Rightarrow> bool \<Rightarrow> py_error option \<times> event list" where
  "dashboard w min_capacity show_raw =
     (case load_station_data w of
        (Inl e, tr) \<Rightarrow> (Some e, [StSetPageConfig, StTitle] @ tr)
      | (Inr df, tr) \<Rightarrow>
          if df = [] then
            (Some StopException,
             [StSetPageConfig, StTitle] @ tr @
             [StError ''Unable to load station data. Please try again later.''])
          else
            (case present df min_capacity show_raw of
               (res, tr2) \<Rightarrow> (res, [StSetPageConfig, StTitle] @ tr @ tr2)))"

text \<open>The events of the stages after the load: filter, encoding, rendering.\<close>

fun downstream :: "event \<Rightarrow> bool" where
  "downstream StSlider = True"
| "downstream (StShowing n t) = True"
| "downstream (StPydeckChart ms) = True"
| "downstream StLegend = True"
| "downstream (StMetric l n) = True"
| "downstream (StLastUpdated t) = True"
| "downstream StCheckbox = True"
| "downstream (StDataframe rows) = True"
| "downstream _ = False"

section \<open>Three worlds\<close>

text \<open>
  Concrete inputs: a world whose warehouse answers with one station, a world whose
  warehouse cannot be reached while the live feed lists two stations (and the status of a
  third, unknown one), and a world where neither source can be reached.
\<close>

definition warehouse_rows :: "station list" where
  "warehouse_rows = [calculate_demand_metrics 1700000000 (example_row 15 10 3)]"

definition feed_information :: "station_information list" where
  "feed_information =
     [\<lparr>station_id = ''a'', name = ''Clark St & Lake St'',
       lat = FNum (418857 / 10000), lon = FNum (- 876308 / 10000), capacity = 15\<rparr>,
      \<lparr>station_id = ''b'', name = ''State St & Van Buren St'',
       lat = FNum (418772 / 10000), lon = FNum (- 876279 / 10000), capacity = 4\<rparr>]"

definition feed_status :: "station_status list" where
  "feed_status =
     [\<lparr>status_station_id = ''b'', status_num_bikes_available = 1,
       status_num_docks_available = 3\<rparr>,
      \<lparr>status_station_id = ''c'', status_num_bikes_available = 0,
       status_num_docks_available = 9\<rparr>,
      \<lparr>status_station_id = ''a'', status_num_bikes_available = 10,
       status_num_docks_available = 3\<rparr>]"

definition world_primary :: world where
  "world_primary =
     \<lparr>snowflake_connect = Inr Connection, read_sql = Inr warehouse_rows,
      conn_close = Inr (), station_information_json = Inr feed_information,
      station_status_json = Inr feed_status, timestamp_now = 1700000300\<rparr>"

definition world_backup :: world where
  "world_backup =
     \<lparr>snowflake_connect = Inl DatabaseError, read_sql = Inl DatabaseError,
      conn_close = Inr (), station_information_json = Inr feed_information,
      station_status_json = Inr feed_status, timestamp_now = 1700000300\<rparr>"

definition world_exhausted :: world where
  "world_exhausted =
     \<lparr>snowflake_connect = Inl DatabaseError, read_sql = Inl DatabaseError,
      conn_close = Inr (), station_information_json = Inl ConnectionError,
      station_status_json = Inl ConnectionError, timestamp_now = 1700000300\<rparr>"

section \<open>Properties of the marker radius\<close>

lemma get_station_radius_cases:
  "get_station_radius c =
     (if 0 \<le> c \<and> c < 10 then 3
      else if 10 \<le> c \<and> c < 20 then 8
      else if 20 \<le> c \<and> c < 30 then 15
      else if 30 \<le> c \<and> c < 50 then 20
      else if 50 \<le> c \<and> c < 75 then 30
      else if 75 \<le> c \<and> c < 100 then 40
      else if 100 \<le> c then 50
      else 3)"
  by (simp add: get_station_radius_def size_groups_def)

lemma get_station_radius_mono: "a \<le> b \<Longrightarrow> get_station_radius a \<le> get_station_radius b"
  unfolding get_station_radius_cases by (simp split: if_splits)

text \<open>
  C5. For every integer capacity the radius is the one of the half-open interval that
  holds it: [0,10) gives 3, [10,20) gives 8, [20,30) gives 15, [30,50) gives 20, [50,75)
  gives 30, [75,100) gives 40, 100 and more gives 50, and a capacity in no interval
  (a negative one) gives the default 3. The radius never decreases as the capacity grows,
  and the boundaries are exact: 10 gives 8, 20 gives 15, 100 gives 50, 15 gives 8.
\<close>

theorem get_station_radius_table:
  "get_station_radius c =
     (if 0 \<le> c \<and> c < 10 then 3
      else if 10 \<le> c \<and> c < 20 then 8
      else if 20 \<le> c \<and> c < 30 then 15
      else if 30 \<le> c \<and> c < 50 then 20
      else if 50 \<le> c \<and> c < 75 then 30
      else if 75 \<le> c \<and> c < 100 then 40
      else if 100 \<le> c then 50
      else 3)
   \<and> (\<forall>a b. a \<le> b \<longrightarrow> get_station_radius a \<le> get_station_radius b)
   \<and> get_station_radius 10 = 8 \<and> get_station_radius 20 = 15
   \<and> get_station_radius 100 = 50 \<and> get_station_radius 15 = 8
   \<and> get_station_radius 9 = 3 \<and> get_station_radius 19 = 8
   \<and> get_station_radius 99 = 40"
proof -
  have table: "get_station_radius k =
     (if 0 \<le> k \<and> k < 10 then 3
      else if 10 \<le> k \<and> k < 20 then 8
      else if 20 \<le> k \<and> k < 30 then 15
      else if 30 \<le> k \<and> k < 50 then 20
      else if 50 \<le> k \<and> k < 75 then 30
      else if 75 \<le> k \<and> k < 100 then 40
      else if 100 \<le> k then 50
      else 3)" for k
    by (rule get_station_radius_cases)
  have mono: "\<forall>a b. a \<le> b \<longrightarrow> get_station_radius a \<le> get_station_radius b"
    using get_station_radius_mono by blast
  have points: "get_station_radius 10 = 8 \<and> get_station_radius 20 = 15
      \<and> get_station_radius 100 = 50 \<and> get_station_radius 15 = 8
      \<and> get_station_radius 9 = 3 \<and> get_station_radius 19 = 8
      \<and> get_station_radius 99 = 40"
    by (simp add: table)
  from table [of c] mono points show ?thesis by blast
qed

theorem get_station_radius_table_witness:
  "(15::int) \<le> 100 \<and> get_station_radius 15 \<le> get_station_radius 100
   \<and> get_station_radius 15 = 8 \<and> get_station_radius 100 = 50"
proof -
  have "(15::int) \<le> 100 \<longrightarrow> get_station_radius 15 \<le> get_station_radius 100"
    using get_station_radius_table [of 0] by blast
  moreover have "get_station_radius 15 = 8 \<and> get_station_radius 100 = 50"
    using get_station_radius_table [of 0] by blast
  ultimately show ?thesis by simp
qed

section \<open>Properties of the demand metrics\<close>






text \<open>
  C7. Calculating the metrics again on a table that has them already gives the same four
  derived columns, whatever the two time stamps are, and with the same time stamp the
  same table. The derived columns depend on \<open>capacity\<close>, \<open>num_bikes_available\<close> and
  \<open>num_docks_available\<close> only: two rows that agree on these three get the same derived
  columns.
\<close>

theorem calculate_demand_metrics_idempotent:
  "map derived_columns
      (map (calculate_demand_metrics now2) (map (calculate_demand_metrics now1) df))
     = map derived_columns (map (calculate_demand_metrics now1) df)
   \<and> map (calculate_demand_metrics now1) (map (calculate_demand_metrics now1) df)
     = map (calculate_demand_metrics now1) df
   \<and> (capacity r1 = capacity r2 \<and> num_bikes_available r1 = num_bikes_available r2
        \<and> num_docks_available r1 = num_docks_available r2 \<longrightarrow>
       derived_columns (calculate_demand_metrics now1 r1)
         = derived_columns (calculate_demand_metrics now2 r2))"
  by (simp add: calculate_demand_metrics_def derived_columns_def)

theorem calculate_demand_metrics_idempotent_witness:
  "capacity (example_row 15 10 3) = capacity (calculate_demand_metrics 5 (example_row 15 10 3))
   \<and> num_bikes_available (example_row 15 10 3)
       = num_bikes_available (calculate_demand_metrics 5 (example_row 15 10 3))
   \<and> num_docks_available (example_row 15 10 3)
       = num_docks_available (calculate_demand_metrics 5 (example_row 15 10 3))
   \<and> derived_columns (calculate_demand_metrics 5 (example_row 15 10 3))
       = derived_columns (calculate_demand_metrics 9 (calculate_demand_metrics 5 (example_row 15 10 3)))
   \<and> derived_columns (calculate_demand_metrics 5 (example_row 15 10 3))
       = (FNum (2 / 3), FNum (1 / 5), 2, FNum (2 / 15))"
proof -
  have same: "capacity (example_row 15 10 3) = capacity (calculate_demand_metrics 5 (example_row 15 10 3))"
    "num_bikes_available (example_row 15 10 3)
       = num_bikes_available (calculate_demand_metrics 5 (example_row 15 10 3))"
    "num_docks_available (example_row 15 10 3)
       = num_docks_available (calculate_demand_metrics 5 (example_row 15 10 3))"
    by (simp_all add: calculate_demand_metrics_def)
  have v: "derived_columns (calculate_demand_metrics 5 (example_row 15 10 3))
       = (FNum (2 / 3), FNum (1 / 5), 2, FNum (2 / 15))"
    by (simp add: derived_columns_def calculate_demand_metrics_def example_row_def int_truediv_def)
  from same
    calculate_demand_metrics_idempotent [of 9 5 "[]" "example_row 15 10 3"
      "calculate_demand_metrics 5 (example_row 15 10 3)"]
  have "derived_columns (calculate_demand_metrics 5 (example_row 15 10 3))
       = derived_columns (calculate_demand_metrics 9 (calculate_demand_metrics 5 (example_row 15 10 3)))"
    by blast
  with same v show ?thesis by blast
qed

section \<open>Properties of the marker colour\<close>

lemma get_station_color_neutral:
  "num_bikes_available row + out_of_service_bikes row = 0 \<Longrightarrow>
   get_station_color row = Inr [200, 200, 200, 200]"
  by (simp add: get_station_color_def)

lemma get_station_color_finite:
  "num_bikes_available row + out_of_service_bikes row \<noteq> 0 \<Longrightarrow>
   bike_utilization row = FNum u \<Longrightarrow> out_of_service_ratio row = FNum q \<Longrightarrow>
   get_station_color row =
     Inr [min 255 (trunc_toward_zero (255 * u) + trunc_toward_zero (255 * q)),
          trunc_toward_zero (255 * u), trunc_toward_zero (255 * u), 200]"
  by (simp add: get_station_color_def float_mul_int_def py_int_def)



lemma trunc_toward_zero_range:
  "0 \<le> u \<Longrightarrow> u \<le> 1 \<Longrightarrow> 0 \<le> trunc_toward_zero (255 * u) \<and> trunc_toward_zero (255 * u) \<le> 255"
  by (simp add: trunc_toward_zero_def floor_le_iff)

lemma get_station_color_bounded:
  assumes "bike_utilization row = FNum u" "out_of_service_ratio row = FNum q"
    "0 \<le> u" "u \<le> 1" "0 \<le> q" "q \<le> 1"
  shows "\<exists>r g b a. get_station_color row = Inr [r, g, b, a]
           \<and> 0 \<le> r \<and> r \<le> 255 \<and> 0 \<le> g \<and> g \<le> 255 \<and> 0 \<le> b \<and> b \<le> 255
           \<and> 0 \<le> a \<and> a \<le> 255 \<and> g \<le> r \<and> b \<le> r"
proof (cases "num_bikes_available row + out_of_service_bikes row = 0")
  case True
  then show ?thesis by (simp add: get_station_color_neutral)
next
  case False
  have bu: "0 \<le> trunc_toward_zero (255 * u) \<and> trunc_toward_zero (255 * u) \<le> 255"
    using assms by (simp add: trunc_toward_zero_range)
  have bq: "0 \<le> trunc_toward_zero (255 * q) \<and> trunc_toward_zero (255 * q) \<le> 255"
    using assms by (simp add: trunc_toward_zero_range)
  from False assms(1,2) have "get_station_color row =
     Inr [min 255 (trunc_toward_zero (255 * u) + trunc_toward_zero (255 * q)),
          trunc_toward_zero (255 * u), trunc_toward_zero (255 * u), 200]"
    by (rule get_station_color_finite)
  with bu bq show ?thesis by simp
qed

lemma well_formed_ratios:
  assumes "0 < capacity raw" "0 \<le> num_bikes_available raw" "0 \<le> num_docks_available raw"
    "num_bikes_available raw + num_docks_available raw \<le> capacity raw"
  shows "\<exists>u q. bike_utilization (calculate_demand_metrics now raw) = FNum u
           \<and> out_of_service_ratio (calculate_demand_metrics now raw) = FNum q
           \<and> 0 \<le> u \<and> u \<le> 1 \<and> 0 \<le> q \<and> q \<le> 1"
  using assms by (simp add: calculate_demand_metrics_def int_truediv_def)




text \<open>
  Rows with more bikes, or more bikes and docks, than capacity pass the filter and reach
  \<open>get_station_color\<close>, and C4 as stated fails on them. Capacity 4 with 6 bikes and no
  dock gives green and blue 382, above 255 and above red. Capacity 4 with 3 bikes and 3
  docks gives red 64 below green and blue 191.
\<close>

theorem get_station_color_range_counterexample:
  "filter_capacity [calculate_demand_metrics 0 (example_row 4 6 0)] 0 =
     [calculate_demand_metrics 0 (example_row 4 6 0)]
   \<and> get_station_color (calculate_demand_metrics 0 (example_row 4 6 0)) =
       Inr [255, 382, 382, 200]
   \<and> filter_capacity [calculate_demand_metrics 0 (example_row 4 3 3)] 0 =
     [calculate_demand_metrics 0 (example_row 4 3 3)]
   \<and> get_station_color (calculate_demand_metrics 0 (example_row 4 3 3)) =
       Inr [64, 191, 191, 200]"
  by code_simp

text \<open>
  C4, as the code has it. For every row whose \<open>bike_utilization\<close> and
  \<open>out_of_service_ratio\<close> are finite numbers between 0 and 1, \<open>get_station_color\<close>
  returns four integers between 0 and 255, and red is at least green and at least blue.
  This covers every row calculated from a merged row with \<open>capacity > 0\<close>, no negative
  count, and \<open>num_bikes_available + num_docks_available \<le> capacity\<close>.
\<close>

theorem get_station_color_channels:
  "(\<forall>u q. bike_utilization row = FNum u \<and> out_of_service_ratio row = FNum q
          \<and> 0 \<le> u \<and> u \<le> 1 \<and> 0 \<le> q \<and> q \<le> 1 \<longrightarrow>
       (\<exists>r g b a. get_station_color row = Inr [r, g, b, a]
           \<and> 0 \<le> r \<and> r \<le> 255 \<and> 0 \<le> g \<and> g \<le> 255 \<and> 0 \<le> b \<and> b \<le> 255
           \<and> 0 \<le> a \<and> a \<le> 255 \<and> g \<le> r \<and> b \<le> r))
   \<and> (0 < capacity raw \<and> 0 \<le> num_bikes_available raw \<and> 0 \<le> num_docks_available raw
        \<and> num_bikes_available raw + num_docks_available raw \<le> capacity raw \<longrightarrow>
       (\<exists>r g b a. get_station_color (calculate_demand_metrics now raw) = Inr [r, g, b, a]
           \<and> 0 \<le> r \<and> r \<le> 255 \<and> 0 \<le> g \<and> g \<le> 255 \<and> 0 \<le> b \<and> b \<le> 255
           \<and> 0 \<le> a \<and> a \<le> 255 \<and> g \<le> r \<and> b \<le> r))"
proof (intro conjI allI impI)
  fix u q
  assume "bike_utilization row = FNum u \<and> out_of_service_ratio row = FNum q
          \<and> 0 \<le> u \<and> u \<le> 1 \<and> 0 \<le> q \<and> q \<le> 1"
  then show "\<exists>r g b a. get_station_color row = Inr [r, g, b, a]
           \<and> 0 \<le> r \<and> r \<le> 255 \<and> 0 \<le> g \<and> g \<le> 255 \<and> 0 \<le> b \<and> b \<le> 255
           \<and> 0 \<le> a \<and> a \<le> 255 \<and> g \<le> r \<and> b \<le> r"
    using get_station_color_bounded [of row u q] by blast
next
  assume wf: "0 < capacity raw \<and> 0 \<le> num_bikes_available raw \<and> 0 \<le> num_docks_available raw
        \<and> num_bikes_available raw + num_docks_available raw \<le> capacity raw"
  then obtain u q where "bike_utilization (calculate_demand_metrics now raw) = FNum u"
      "out_of_service_ratio (calculate_demand_metrics now raw) = FNum q"
      "0 \<le> u" "u \<le> 1" "0 \<le> q" "q \<le> 1"
    using well_formed_ratios [of raw now] by blast
  then show "\<exists>r g b a. get_station_color (calculate_demand_metrics now raw) = Inr [r, g, b, a]
           \<and> 0 \<le> r \<and> r \<le> 255 \<and> 0 \<le> g \<and> g \<le> 255 \<and> 0 \<le> b \<and> b \<le> 255
           \<and> 0 \<le> a \<and> a \<le> 255 \<and> g \<le> r \<and> b \<le> r"
    by (rule get_station_color_bounded)
qed

theorem get_station_color_channels_witness:
  "bike_utilization (calculate_demand_metrics 0 (example_row 15 10 3)) = FNum (2 / 3)
   \<and> out_of_service_ratio (calculate_demand_metrics 0 (example_row 15 10 3)) = FNum (2 / 15)
   \<and> (0::rat) \<le> 2 / 3 \<and> (2 / 3 :: rat) \<le> 1 \<and> (0::rat) \<le> 2 / 15 \<and> (2 / 15 :: rat) \<le> 1
   \<and> 0 < capacity (example_row 15 10 3) \<and> 0 \<le> num_bikes_available (example_row 15 10 3)
   \<and> 0 \<le> num_docks_available (example_row 15 10 3)
   \<and> num_bikes_available (example_row 15 10 3) + num_docks_available (example_row 15 10 3)
        \<le> capacity (example_row 15 10 3)
   \<and> (\<exists>r g b a. get_station_color (calculate_demand_metrics 0 (example_row 15 10 3)) = Inr [r, g, b, a]
           \<and> 0 \<le> r \<and> r \<le> 255 \<and> 0 \<le> g \<and> g \<le> 255 \<and> 0 \<le> b \<and> b \<le> 255
           \<and> 0 \<le> a \<and> a \<le> 255 \<and> g \<le> r \<and> b \<le> r)"
proof -
  have r: "bike_utilization (calculate_demand_metrics 0 (example_row 15 10 3)) = FNum (2 / 3)"
    "out_of_service_ratio (calculate_demand_metrics 0 (example_row 15 10 3)) = FNum (2 / 15)"
    by (simp_all add: calculate_demand_metrics_def example_row_def int_truediv_def)
  have b: "(0::rat) \<le> 2 / 3" "(2 / 3 :: rat) \<le> 1" "(0::rat) \<le> 2 / 15" "(2 / 15 :: rat) \<le> 1"
    by simp_all
  have wf: "0 < capacity (example_row 15 10 3)" "0 \<le> num_bikes_available (example_row 15 10 3)"
    "0 \<le> num_docks_available (example_row 15 10 3)"
    "num_bikes_available (example_row 15 10 3) + num_docks_available (example_row 15 10 3)
        \<le> capacity (example_row 15 10 3)"
    by (simp_all add: example_row_def)
  from r b
    get_station_color_channels [of "calculate_demand_metrics 0 (example_row 15 10 3)"
      "example_row 15 10 3" 0]
  have "\<exists>r g b a. get_station_color (calculate_demand_metrics 0 (example_row 15 10 3)) = Inr [r, g, b, a]
           \<and> 0 \<le> r \<and> r \<le> 255 \<and> 0 \<le> g \<and> g \<le> 255 \<and> 0 \<le> b \<and> b \<le> 255
           \<and> 0 \<le> a \<and> a \<le> 255 \<and> g \<le> r \<and> b \<le> r"
    by blast
  with r b wf show ?thesis by blast
qed

section \<open>Properties of the two adapters\<close>





section \<open>Properties of the fallback\<close>

lemma load_from_snowflake_no_http: "HttpGet u \<notin> set (snd (load_from_snowflake w))"
  by (auto simp: load_from_snowflake_def get_snowflake_connection_def except_Exception_def
      split: sum.splits option.splits prod.splits if_splits)

lemma load_from_api_http: "HttpGet info_url \<in> set (snd (load_from_api w))"
  by (auto simp: load_from_api_def except_Exception_def
      split: sum.splits option.splits prod.splits if_splits)

lemma load_from_snowflake_no_downstream: "filter downstream (snd (load_from_snowflake w)) = []"
  by (auto simp: load_from_snowflake_def get_snowflake_connection_def except_Exception_def
      split: sum.splits option.splits prod.splits if_splits)

lemma load_from_api_no_downstream: "filter downstream (snd (load_from_api w)) = []"
  by (auto simp: load_from_api_def except_Exception_def
      split: sum.splits option.splits prod.splits if_splits)

lemma load_from_api_enriched:
  assumes "fst (load_from_api w) = Inr df" "df \<noteq> []"
  shows "\<exists>info status. station_information_json w = Inr info
           \<and> station_status_json w = Inr status
           \<and> df = map (calculate_demand_metrics (timestamp_now w)) (pd_merge info status)"
  using assms
  by (auto simp: load_from_api_def except_Exception_def
      split: sum.splits option.splits prod.splits if_splits)

lemma load_station_data_primary:
  assumes "fst (load_from_snowflake w) = Inr df" "df \<noteq> []"
  shows "load_station_data w = (Inr df, snd (load_from_snowflake w))"
  using assms by (cases "load_from_snowflake w") (simp add: load_station_data_def)

lemma load_station_data_backup:
  assumes "fst (load_from_snowflake w) = Inr []" "fst (load_from_api w) = Inr df" "df \<noteq> []"
  shows "load_station_data w =
    (Inr df, snd (load_from_snowflake w) @ [fallback_log] @ snd (load_from_api w) @ [backup_warning])"
  using assms
  by (cases "load_from_snowflake w"; cases "load_from_api w") (simp add: load_station_data_def)

lemma load_station_data_exhausted:
  assumes "fst (load_from_snowflake w) = Inr []" "fst (load_from_api w) = Inr []"
  shows "load_station_data w =
    (Inl StopException,
     snd (load_from_snowflake w) @ [fallback_log] @ snd (load_from_api w) @ [exhausted_error])"
  using assms
  by (cases "load_from_snowflake w"; cases "load_from_api w") (simp add: load_station_data_def)

lemma load_station_data_trace:
  "snd (load_station_data w) =
     (if fst (load_from_snowflake w) = Inr [] then
        snd (load_from_snowflake w) @ [fallback_log] @ snd (load_from_api w) @
        (case fst (load_from_api w) of
           Inl e \<Rightarrow> []
         | Inr df \<Rightarrow> if df = [] then [exhausted_error] else [backup_warning])
      else snd (load_from_snowflake w))"
  by (cases "load_from_snowflake w"; cases "load_from_api w")
     (auto simp: load_station_data_def split: sum.splits)

lemma dashboard_exhausted:
  assumes "fst (load_from_snowflake w) = Inr []" "fst (load_from_api w) = Inr []"
  shows "fst (dashboard w t s) = Some StopException \<and> filter downstream (snd (dashboard w t s)) = []"
  using assms load_from_snowflake_no_downstream [of w] load_from_api_no_downstream [of w]
  by (simp add: dashboard_def load_station_data_exhausted fallback_log_def exhausted_error_def)

text \<open>
  C1. \<open>load_station_data\<close> runs the warehouse adapter first: its events start with the
  events of that adapter. It requests the live feed if and only if the warehouse adapter
  returned the empty table, and then the events of the live adapter follow the fallback
  warning in the log. A warehouse table with rows is the result as it is. When the
  warehouse table is empty and the live adapter returns a table with rows, the result is
  that table (the merged feed with its metrics) and the last event is the warning that
  backup data is in use. When both tables are empty, the last event is the error that both
  sources failed, the run is stopped, and the whole script ends with no event of the
  filter, the encoding or the rendering, for every slider value and checkbox state.
\<close>

theorem load_station_data_fallback:
  "(\<exists>rest. snd (load_station_data w) = snd (load_from_snowflake w) @ rest)
   \<and> (HttpGet info_url \<in> set (snd (load_station_data w))
        \<longleftrightarrow> fst (load_from_snowflake w) = Inr [])
   \<and> (fst (load_from_snowflake w) = Inr [] \<longrightarrow>
        (\<exists>rest. snd (load_station_data w) =
           snd (load_from_snowflake w) @ [fallback_log] @ snd (load_from_api w) @ rest))
   \<and> (\<forall>df. fst (load_from_snowflake w) = Inr df \<and> df \<noteq> [] \<longrightarrow>
         load_station_data w = (Inr df, snd (load_from_snowflake w)))
   \<and> (\<forall>df. fst (load_from_snowflake w) = Inr [] \<and> fst (load_from_api w) = Inr df \<and> df \<noteq> [] \<longrightarrow>
         load_station_data w =
           (Inr df,
            snd (load_from_snowflake w) @ [fallback_log] @ snd (load_from_api w) @ [backup_warning])
         \<and> (\<exists>info status. station_information_json w = Inr info
               \<and> station_status_json w = Inr status
               \<and> df = map (calculate_demand_metrics (timestamp_now w)) (pd_merge info status)))
   \<and> (fst (load_from_snowflake w) = Inr [] \<and> fst (load_from_api w) = Inr [] \<longrightarrow>
         load_station_data w =
           (Inl StopException,
            snd (load_from_snowflake w) @ [fallback_log] @ snd (load_from_api w) @ [exhausted_error])
         \<and> (\<forall>t s. fst (dashboard w t s) = Some StopException
                \<and> filter downstream (snd (dashboard w t s)) = []))"
proof -
  have first: "\<exists>rest. snd (load_station_data w) = snd (load_from_snowflake w) @ rest"
    by (simp add: load_station_data_trace)
  have invoked: "HttpGet info_url \<in> set (snd (load_station_data w))
        \<longleftrightarrow> fst (load_from_snowflake w) = Inr []"
    using load_from_snowflake_no_http [of info_url w] load_from_api_http [of w]
    by (simp add: load_station_data_trace)
  have then_live: "fst (load_from_snowflake w) = Inr [] \<longrightarrow>
        (\<exists>rest. snd (load_station_data w) =
           snd (load_from_snowflake w) @ [fallback_log] @ snd (load_from_api w) @ rest)"
    by (simp add: load_station_data_trace)
  show ?thesis
    using first invoked then_live load_station_data_primary [of w]
      load_station_data_backup [of w] load_from_api_enriched [of w]
      load_station_data_exhausted [of w] dashboard_exhausted [of w]
    by blast
qed

theorem load_station_data_fallback_witness:
  "fst (load_from_snowflake world_primary) = Inr warehouse_rows \<and> warehouse_rows \<noteq> []
   \<and> load_station_data world_primary = (Inr warehouse_rows, snd (load_from_snowflake world_primary))
   \<and> HttpGet info_url \<notin> set (snd (load_station_data world_primary))
   \<and> fst (load_from_snowflake world_backup) = Inr []
   \<and> fst (load_from_api world_backup) =
        Inr (map (calculate_demand_metrics 1700000300) (pd_merge feed_information feed_status))
   \<and> map (calculate_demand_metrics 1700000300) (pd_merge feed_information feed_status) \<noteq> []
   \<and> fst (load_station_data world_backup) =
        Inr (map (calculate_demand_metrics 1700000300) (pd_merge feed_information feed_status))
   \<and> backup_warning \<in> set (snd (load_station_data world_backup))
   \<and> HttpGet info_url \<in> set (snd (load_station_data world_backup))
   \<and> fst (load_from_snowflake world_exhausted) = Inr []
   \<and> fst (load_from_api world_exhausted) = Inr []
   \<and> fst (load_station_data world_exhausted) = Inl StopException
   \<and> exhausted_error \<in> set (snd (load_station_data world_exhausted))
   \<and> fst (dashboard world_exhausted 10 True) = Some StopException
   \<and> filter downstream (snd (dashboard world_exhausted 10 True)) = []"
proof -
  have p: "fst (load_from_snowflake world_primary) = Inr warehouse_rows \<and> warehouse_rows \<noteq> []"
    by (simp add: load_from_snowflake_def get_snowflake_connection_def world_primary_def
        warehouse_rows_def)
  have b: "fst (load_from_snowflake world_backup) = Inr []
      \<and> fst (load_from_api world_backup) =
        Inr (map (calculate_demand_metrics 1700000300) (pd_merge feed_information feed_status))
      \<and> map (calculate_demand_metrics 1700000300) (pd_merge feed_information feed_status) \<noteq> []"
    by (simp add: load_from_snowflake_def get_snowflake_connection_def load_from_api_def
        world_backup_def feed_information_def feed_status_def pd_merge_def)
  have x: "fst (load_from_snowflake world_exhausted) = Inr []
      \<and> fst (load_from_api world_exhausted) = Inr []"
    by (simp add: load_from_snowflake_def get_snowflake_connection_def load_from_api_def
        except_Exception_def world_exhausted_def)
  from p load_station_data_fallback [of world_primary]
  have p': "load_station_data world_primary = (Inr warehouse_rows, snd (load_from_snowflake world_primary))
     \<and> HttpGet info_url \<notin> set (snd (load_station_data world_primary))"
    by (metis list.simps(3) sum.inject(2))
  from b load_station_data_fallback [of world_backup]
  have b': "fst (load_station_data world_backup) =
        Inr (map (calculate_demand_metrics 1700000300) (pd_merge feed_information feed_status))
      \<and> backup_warning \<in> set (snd (load_station_data world_backup))
      \<and> HttpGet info_url \<in> set (snd (load_station_data world_backup))"
    by auto
  from x load_station_data_fallback [of world_exhausted]
  have x': "fst (load_station_data world_exhausted) = Inl StopException
      \<and> exhausted_error \<in> set (snd (load_station_data world_exhausted))
      \<and> fst (dashboard world_exhausted 10 True) = Some StopException
      \<and> filter downstream (snd (dashboard world_exhausted 10 True)) = []"
    by auto
  from p p' b b' x x' show ?thesis by blast
qed

section \<open>Properties of the filter and the summary counts\<close>


















end
